theory Spec2Isabelle
  imports Complex_Main "HOL-Library.Word"
begin

section \<open>JavaScript strings\<close>

text \<open>
  A JavaScript string is a sequence of UTF-16 code units. String literals of the source
  that are plain ASCII are written \<open>lit ''...''\<close>; the Vietnamese letters of the user
  interface messages are given by their code units.
\<close>

type_synonym jsstring = "16 word list"

definition lit :: "string \<Rightarrow> jsstring" where
  "lit s = map of_char s"

text \<open>
  \<^verbatim>\<open>String.prototype.trim\<close> removes the code units of the ECMAScript productions
  WhiteSpace and LineTerminator from both ends.
\<close>

definition is_js_space :: "16 word \<Rightarrow> bool" where
  "is_js_space c \<longleftrightarrow>
     c = 0x9 \<or> c = 0xA \<or> c = 0xB \<or> c = 0xC \<or> c = 0xD \<or> c = 0x20 \<or> c = 0xA0 \<or>
     c = 0x1680 \<or> (0x2000 \<le> c \<and> c \<le> 0x200A) \<or> c = 0x2028 \<or> c = 0x2029 \<or>
     c = 0x202F \<or> c = 0x205F \<or> c = 0x3000 \<or> c = 0xFEFF"

definition trim :: "jsstring \<Rightarrow> jsstring" where
  "trim s = rev (dropWhile is_js_space (rev (dropWhile is_js_space s)))"

text \<open>The decimal rendering of a non-negative integer, as a template literal produces it.\<close>

fun dec :: "nat \<Rightarrow> jsstring" where
  "dec n = (if n < 10 then [of_nat (48 + n)] else dec (n div 10) @ [of_nat (48 + n mod 10)])"

declare dec.simps [simp del]

section \<open>JavaScript numbers\<close>

text \<open>
  A JavaScript number is an IEEE 754 double. A finite double is represented by its value,
  a rational number; the sign of a zero is not represented. The result of an arithmetic
  operation is the exact result rounded to the nearest double, ties going to the double
  with an even significand.

  \<open>exponent x\<close> is the integer \<open>e\<close> with \<open>2 ^ e \<le> x < 2 ^ (e + 1)\<close>, for positive \<open>x\<close>:
  \<open>norm_up\<close> halves a number from 2 on until it is below 2, \<open>norm_down\<close> doubles a
  number below 1 until it is at least 1.
\<close>

function norm_up :: "rat \<Rightarrow> int" where
  "norm_up x = (if x < 2 then 0 else norm_up (x / 2) + 1)"
  by pat_completeness auto
termination
proof (relation "measure (\<lambda>x. nat \<lfloor>x\<rfloor>)")
  show "wf (measure (\<lambda>x::rat. nat \<lfloor>x\<rfloor>))" by simp
next
  fix x :: rat
  assume "\<not> x < 2"
  then have "x / 2 \<le> x - 1" by simp
  then have "\<lfloor>x / 2\<rfloor> \<le> \<lfloor>x - 1\<rfloor>" by (rule floor_mono)
  moreover have "0 < \<lfloor>x\<rfloor>" using \<open>\<not> x < 2\<close> by simp
  ultimately show "(x / 2, x) \<in> measure (\<lambda>x. nat \<lfloor>x\<rfloor>)" by simp
qed

function norm_down :: "rat \<Rightarrow> int" where
  "norm_down x = (if x \<le> 0 \<or> 1 \<le> x then 0 else norm_down (x * 2) - 1)"
  by pat_completeness auto
termination
proof (relation "measure (\<lambda>x. nat \<lceil>1 / x\<rceil>)")
  show "wf (measure (\<lambda>x::rat. nat \<lceil>1 / x\<rceil>))" by simp
next
  fix x :: rat
  assume a: "\<not> (x \<le> 0 \<or> 1 \<le> x)"
  then have y: "1 < 1 / x" by simp
  define c where "c = \<lceil>1 / x\<rceil>"
  have c1: "1 / x \<le> of_int c" unfolding c_def by (rule le_of_int_ceiling)
  with y have "(1::rat) < of_int c" by linarith
  then have c2: "2 \<le> c" by simp
  then have "(2::rat) \<le> of_int c" by (metis of_int_le_iff of_int_numeral)
  with c1 have "1 / x / 2 \<le> of_int (c - 1)" by simp
  then have "\<lceil>1 / x / 2\<rceil> \<le> c - 1" by (simp only: ceiling_le_iff)
  then have "\<lceil>1 / (x * 2)\<rceil> < c" by (simp add: divide_simps mult.commute)
  with c2 a show "(x * 2, x) \<in> measure (\<lambda>x. nat \<lceil>1 / x\<rceil>)" by (simp add: c_def)
qed

declare norm_up.simps [simp del] norm_down.simps [simp del]

definition exponent :: "rat \<Rightarrow> int" where
  "exponent x = (if 1 \<le> x then norm_up x else norm_down x)"

text \<open>Rounding to the nearest integer, a tie going to the even one.\<close>

definition rte :: "rat \<Rightarrow> int" where
  "rte x =
     (if x - of_int \<lfloor>x\<rfloor> < 1 / 2 then \<lfloor>x\<rfloor>
      else if 1 / 2 < x - of_int \<lfloor>x\<rfloor> then \<lfloor>x\<rfloor> + 1
      else if even \<lfloor>x\<rfloor> then \<lfloor>x\<rfloor> else \<lfloor>x\<rfloor> + 1)"

text \<open>
  The distance between neighbouring doubles around a non-negative \<open>x\<close>: the significand has
  53 bits, and below \<open>2 ^ - 1022\<close> the doubles are subnormal, with the spacing \<open>2 ^ - 1074\<close>.
\<close>

definition quantum :: "rat \<Rightarrow> rat" where
  "quantum x = 2 powi (max (exponent x) (- 1022) - 52)"

definition rnd :: "rat \<Rightarrow> rat" where
  "rnd x = sgn x * (of_int (rte (\<bar>x\<bar> / quantum \<bar>x\<bar>)) * quantum \<bar>x\<bar>)"


datatype number = Finite rat | PosInfinity | NegInfinity | NaN

text \<open>The double for an exact result: it overflows to an infinity from \<open>2 ^ 1024\<close> on.\<close>

definition to_number :: "rat \<Rightarrow> number" where
  "to_number x =
     (if 2 powi 1024 \<le> \<bar>rnd x\<bar> then (if 0 < x then PosInfinity else NegInfinity)
      else Finite (rnd x))"

fun js_div :: "number \<Rightarrow> number \<Rightarrow> number" where
  "js_div (Finite a) (Finite b) =
     (if b = 0 then (if a = 0 then NaN else if 0 < a then PosInfinity else NegInfinity)
      else to_number (a / b))"
| "js_div (Finite a) PosInfinity = Finite 0"
| "js_div (Finite a) NegInfinity = Finite 0"
| "js_div PosInfinity (Finite b) = (if 0 \<le> b then PosInfinity else NegInfinity)"
| "js_div NegInfinity (Finite b) = (if 0 \<le> b then NegInfinity else PosInfinity)"
| "js_div PosInfinity PosInfinity = NaN"
| "js_div PosInfinity NegInfinity = NaN"
| "js_div NegInfinity PosInfinity = NaN"
| "js_div NegInfinity NegInfinity = NaN"
| "js_div NaN b = NaN"
| "js_div (Finite a) NaN = NaN"
| "js_div PosInfinity NaN = NaN"
| "js_div NegInfinity NaN = NaN"

fun js_mul :: "number \<Rightarrow> number \<Rightarrow> number" where
  "js_mul (Finite a) (Finite b) = to_number (a * b)"
| "js_mul (Finite a) PosInfinity =
     (if a = 0 then NaN else if 0 < a then PosInfinity else NegInfinity)"
| "js_mul (Finite a) NegInfinity =
     (if a = 0 then NaN else if 0 < a then NegInfinity else PosInfinity)"
| "js_mul PosInfinity (Finite b) =
     (if b = 0 then NaN else if 0 < b then PosInfinity else NegInfinity)"
| "js_mul NegInfinity (Finite b) =
     (if b = 0 then NaN else if 0 < b then NegInfinity else PosInfinity)"
| "js_mul PosInfinity PosInfinity = PosInfinity"
| "js_mul NegInfinity NegInfinity = PosInfinity"
| "js_mul PosInfinity NegInfinity = NegInfinity"
| "js_mul NegInfinity PosInfinity = NegInfinity"
| "js_mul NaN b = NaN"
| "js_mul (Finite a) NaN = NaN"
| "js_mul PosInfinity NaN = NaN"
| "js_mul NegInfinity NaN = NaN"

text \<open>
  \<^verbatim>\<open>Math.round\<close>: the integer closest to the argument, the one towards positive
  infinity when two are equally close.
\<close>

fun Math_round :: "number \<Rightarrow> number" where
  "Math_round (Finite x) = Finite (of_int \<lfloor>x + 1 / 2\<rfloor>)"
| "Math_round n = n"

text \<open>The number for an attribute of type \<^verbatim>\<open>unsigned long long\<close>.\<close>

definition of_uint64 :: "64 word \<Rightarrow> number" where
  "of_uint64 w = to_number (unsigned w)"

section \<open>The API client (api.ts)\<close>

datatype search_mode = Legal | User | Hybrid

text \<open>An optional property of an options object is \<open>None\<close> when it is omitted.\<close>

record chat_options =
  searchMode :: "search_mode option"
  rerankerEnabled :: "bool option"

record chat_body =
  message :: jsstring
  user_id :: jsstring
  session_id :: jsstring
  search_mode :: search_mode
  reranker_enabled :: bool

text \<open>The object that \<^verbatim>\<open>chat\<close> serialises as the body of \<^verbatim>\<open>POST /api/chat\<close>.\<close>

definition chat_request :: "jsstring \<Rightarrow> jsstring \<Rightarrow> jsstring \<Rightarrow> chat_options \<Rightarrow> chat_body" where
  "chat_request msg userId sessionId options =
     \<lparr>message = msg, user_id = userId, session_id = sessionId,
      search_mode = (case searchMode options of None \<Rightarrow> Hybrid | Some m \<Rightarrow> m),
      reranker_enabled = (case rerankerEnabled options of None \<Rightarrow> True | Some b \<Rightarrow> b)\<rparr>"

record search_options =
  so_searchMode :: "search_mode option"
  topK :: "number option"

record search_body =
  query :: jsstring
  sb_user_id :: jsstring
  sb_search_mode :: search_mode
  top_k :: number

text \<open>The object that \<^verbatim>\<open>search\<close> serialises as the body of \<^verbatim>\<open>POST /api/search\<close>.\<close>

definition search_request :: "jsstring \<Rightarrow> jsstring \<Rightarrow> search_options \<Rightarrow> search_body" where
  "search_request q userId options =
     \<lparr>query = q, sb_user_id = userId,
      sb_search_mode = (case so_searchMode options of None \<Rightarrow> Hybrid | Some m \<Rightarrow> m),
      top_k = (case topK options of None \<Rightarrow> Finite 5 | Some k \<Rightarrow> k)\<rparr>"

text \<open>The default value of the \<^verbatim>\<open>options\<close> parameter, \<^verbatim>\<open>{}\<close>.\<close>

definition no_chat_options :: chat_options where
  "no_chat_options = \<lparr>searchMode = None, rerankerEnabled = None\<rparr>"

definition no_search_options :: search_options where
  "no_search_options = \<lparr>so_searchMode = None, topK = None\<rparr>"

subsection \<open>Responses\<close>

text \<open>
  What the client observes of the \<^verbatim>\<open>detail\<close> property of a parsed body: it is absent
  (\<^verbatim>\<open>undefined\<close>), a string, or some other JSON value, of which the code observes the
  truthiness and the string that \<^verbatim>\<open>new Error\<close> coerces it to.
\<close>

datatype detail_field =
  Absent
| DetailStr jsstring
| DetailOther (truthy: bool) (coerced: jsstring)

text \<open>
  The body of a response as \<^verbatim>\<open>response.json()\<close> delivers it: the promise rejects
  (\<open>NotJson\<close>), or resolves to \<^verbatim>\<open>null\<close>, or to another JSON value, given by its
  \<^verbatim>\<open>detail\<close> property and its reading at the endpoint's payload type.
\<close>

datatype 'a body = NotJson | JsonNull | Json detail_field 'a

record 'a response =
  status :: nat
  body :: "'a body"

definition ok :: "'a response \<Rightarrow> bool" where
  "ok r \<longleftrightarrow> 200 \<le> status r \<and> status r \<le> 299"

text \<open>
  A thrown value is an instance of \<^verbatim>\<open>Error\<close> with its message, or something else.
  The messages of the errors that the runtime itself raises are parameters.
\<close>

datatype thrown = ErrorObj jsstring | NonError

record runtime =
  null_property_msg :: jsstring
  json_syntax_msg :: jsstring

text \<open>\<^verbatim>\<open>error.detail || `Chat failed: ${response.status}`\<close>, passed to \<^verbatim>\<open>new Error\<close>.\<close>

fun detail_or :: "detail_field \<Rightarrow> jsstring \<Rightarrow> jsstring" where
  "detail_or Absent dflt = dflt"
| "detail_or (DetailStr s) dflt = (if s = [] then dflt else s)"
| "detail_or (DetailOther t c) dflt = (if t then c else dflt)"

text \<open>
  The part of \<^verbatim>\<open>chat\<close> after \<^verbatim>\<open>fetch\<close> has resolved to a response: \<open>Inl\<close> is a
  rejected promise, \<open>Inr\<close> the value that the promise resolves to, \<open>None\<close> standing for
  \<^verbatim>\<open>null\<close>.
\<close>

definition chat_response :: "runtime \<Rightarrow> 'a response \<Rightarrow> thrown + 'a option" where
  "chat_response rt r =
     (if \<not> ok r then
        (case body r of
           NotJson \<Rightarrow> Inl (ErrorObj (detail_or Absent (lit ''Chat failed: '' @ dec (status r))))
         | JsonNull \<Rightarrow> Inl (ErrorObj (null_property_msg rt))
         | Json d _ \<Rightarrow> Inl (ErrorObj (detail_or d (lit ''Chat failed: '' @ dec (status r)))))
      else
        (case body r of
           NotJson \<Rightarrow> Inl (ErrorObj (json_syntax_msg rt))
         | JsonNull \<Rightarrow> Inr None
         | Json _ a \<Rightarrow> Inr (Some a)))"

subsection \<open>Upload progress\<close>

record ProgressEvent =
  lengthComputable :: bool
  loaded :: "64 word"
  total :: "64 word"

text \<open>
  The progress listener that \<^verbatim>\<open>uploadDocument\<close> registers: the value it passes to
  \<^verbatim>\<open>onProgress\<close>, if it calls it. The first argument tells whether the caller has
  given an \<^verbatim>\<open>onProgress\<close>.
\<close>

definition progress_listener :: "bool \<Rightarrow> ProgressEvent \<Rightarrow> number option" where
  "progress_listener has_onProgress e =
     (if lengthComputable e \<and> has_onProgress then
        Some (Math_round
                (js_mul (js_div (of_uint64 (loaded e)) (of_uint64 (total e))) (Finite 100)))
      else None)"

text \<open>The integer that the listener reports for \<open>l\<close> bytes of \<open>t\<close>, when \<open>0 < t\<close>.\<close>

definition percent :: "64 word \<Rightarrow> 64 word \<Rightarrow> int" where
  "percent l t = \<lfloor>rnd (rnd (rnd (unsigned l) / rnd (unsigned t)) * 100) + 1 / 2\<rfloor>"

section \<open>The chat window (ChatArea)\<close>

record Citation =
  dieu :: jsstring
  khoan :: "jsstring option"
  c_text :: jsstring
  score :: number
  source_type :: "jsstring option"

record QualityMetrics =
  grade :: jsstring
  bertscore_f1 :: number
  hallucination_score :: "number option"
  factuality_score :: "number option"
  context_relevance :: "number option"
  feedback :: "jsstring option"

record ChatResponse =
  answer :: jsstring
  sources :: "Citation list"
  metrics :: "QualityMetrics option"
  message_id :: "number option"

datatype role = RoleUser | RoleAssistant

record Message =
  role :: role
  content :: jsstring
  citations :: "Citation list option"
  m_grade :: "jsstring option"
  m_metrics :: "QualityMetrics option"
  timestamp :: "jsstring option"

record ChatAreaProps =
  p_userId :: jsstring
  p_sessionId :: jsstring
  p_searchMode :: search_mode
  p_rerankerEnabled :: bool

record chat_state =
  messages :: "Message list"
  input :: jsstring
  isLoading :: bool
  error :: "jsstring option"

definition greeting :: jsstring where
  "greeting =
     lit ''Xin ch'' @ [0xE0] @ lit ''o! T'' @ [0xF4] @ lit ''i l'' @ [0xE0] @ lit '' tr'' @ [0x1EE3] @
     lit '' l'' @ [0xFD] @ lit '' ph'' @ [0xE1] @ lit ''p lu'' @ [0x1EAD] @ lit ''t AI. T'' @ [0xF4] @
     lit ''i c'' @ [0xF3] @ lit '' th'' @ [0x1EC3] @ lit '' gi'' @ [0xFA] @ lit ''p b'' @ [0x1EA1] @
     lit ''n tra c'' @ [0x1EE9] @ lit ''u c'' @ [0xE1] @ lit ''c '' @ [0x111] @ lit ''i'' @ [0x1EC1] @
     lit ''u lu'' @ [0x1EAD] @ lit ''t trong B'' @ [0x1ED9] @ lit '' lu'' @ [0x1EAD] @ lit ''t H'' @
     [0xEC] @ lit ''nh s'' @ [0x1EF1] @ lit '' Vi'' @ [0x1EC7] @ lit ''t Nam. H'' @ [0xE3] @ lit ''y '' @
     [0x111] @ [0x1EB7] @ lit ''t c'' @ [0xE2] @ lit ''u h'' @ [0x1ECF] @ lit ''i ph'' @ [0xE1] @
     lit ''p l'' @ [0xFD] @ lit '' cho t'' @ [0xF4] @ lit ''i!''"

definition plain_message :: "role \<Rightarrow> jsstring \<Rightarrow> Message" where
  "plain_message r c =
     \<lparr>role = r, content = c, citations = None, m_grade = None, m_metrics = None, timestamp = None\<rparr>"

text \<open>The state of a freshly mounted chat window, from the optional \<^verbatim>\<open>initialMessages\<close>.\<close>

definition initial_chat_state :: "(role \<times> jsstring) list option \<Rightarrow> chat_state" where
  "initial_chat_state initialMessages =
     \<lparr>messages =
        (case initialMessages of
           Some (m # ms) \<Rightarrow> map (\<lambda>(r, c). plain_message r c) (m # ms)
         | _ \<Rightarrow> [plain_message RoleAssistant greeting]),
      input = [], isLoading = False, error = None\<rparr>"

definition send_fallback_msg :: jsstring where
  "send_fallback_msg =
     lit ''C'' @ [0xF3] @ lit '' l'' @ [0x1ED7] @ lit ''i x'' @ [0x1EA3] @ lit ''y ra khi g'' @ [0x1EED] @
     lit ''i tin nh'' @ [0x1EAF] @ lit ''n''"

text \<open>
  \<^verbatim>\<open>handleSend\<close> up to its \<^verbatim>\<open>await\<close>: the new state and the request passed to
  \<^verbatim>\<open>chat\<close>, if one is made. The argument \<open>now\<close> is the formatted time of day.
\<close>

definition handleSend_begin ::
  "ChatAreaProps \<Rightarrow> jsstring \<Rightarrow> chat_state \<Rightarrow> chat_state \<times> chat_body option" where
  "handleSend_begin p now s =
     (if trim (input s) = [] \<or> isLoading s then (s, None)
      else
        (s\<lparr>messages := messages s @
              [\<lparr>role = RoleUser, content = input s, citations = None, m_grade = None,
                m_metrics = None, timestamp = Some now\<rparr>],
            input := [], isLoading := True, error := None\<rparr>,
         Some (chat_request (input s) (p_userId p) (p_sessionId p)
                 \<lparr>searchMode = Some (p_searchMode p),
                  rerankerEnabled = Some (p_rerankerEnabled p)\<rparr>)))"

text \<open>
  The \<^verbatim>\<open>catch\<close> branch of \<^verbatim>\<open>handleSend\<close>, followed by \<^verbatim>\<open>finally\<close>.
\<close>

definition handleSend_catch :: "thrown \<Rightarrow> chat_state \<Rightarrow> chat_state" where
  "handleSend_catch err s =
     s\<lparr>error := Some (case err of ErrorObj m \<Rightarrow> m | NonError \<Rightarrow> send_fallback_msg),
       messages := butlast (messages s),
       isLoading := False\<rparr>"

text \<open>
  The rest of \<^verbatim>\<open>handleSend\<close>, once the promise of \<^verbatim>\<open>chat\<close> has settled. On a
  response the \<^verbatim>\<open>try\<close> block goes on; reading \<^verbatim>\<open>response.answer\<close> of \<^verbatim>\<open>null\<close>
  throws there, which leads to the \<^verbatim>\<open>catch\<close> branch as a rejected promise does.
\<close>

definition handleSend_settle ::
  "runtime \<Rightarrow> jsstring \<Rightarrow> thrown + ChatResponse option \<Rightarrow> chat_state \<Rightarrow> chat_state"
  where
  "handleSend_settle rt now r s =
     (case r of
        Inr (Some response) \<Rightarrow>
          s\<lparr>messages := messages s @
               [\<lparr>role = RoleAssistant, content = answer response,
                 citations = Some (sources response),
                 m_grade = map_option grade (metrics response),
                 m_metrics = metrics response, timestamp = Some now\<rparr>],
            isLoading := False\<rparr>
      | Inr None \<Rightarrow> handleSend_catch (ErrorObj (null_property_msg rt)) s
      | Inl err \<Rightarrow> handleSend_catch err s)"

text \<open>A whole turn: \<open>outcome\<close> is how the promise of \<^verbatim>\<open>chat\<close> settles for a request.\<close>

definition handleSend ::
  "ChatAreaProps \<Rightarrow> runtime \<Rightarrow> jsstring \<Rightarrow> jsstring \<Rightarrow>
   (chat_body \<Rightarrow> thrown + ChatResponse option) \<Rightarrow> chat_state \<Rightarrow> chat_state" where
  "handleSend p rt now now' outcome s =
     (case handleSend_begin p now s of
        (s', None) \<Rightarrow> s'
      | (s', Some req) \<Rightarrow> handleSend_settle rt now' (outcome req) s')"

definition handleRetry :: "chat_state \<Rightarrow> chat_state" where
  "handleRetry s =
     (if length (messages s) > 0 then
        (case find (\<lambda>m. role m = RoleUser) (rev (messages s)) of
           Some lastUserMsg \<Rightarrow> s\<lparr>input := content lastUserMsg, error := None\<rparr>
         | None \<Rightarrow> s)
      else s)"

section \<open>The upload dialogue (UploadModal)\<close>

record File =
  file_name :: jsstring
  file_type :: jsstring
  file_size :: nat

datatype UploadStatus = Idle | Uploading | Success | Error

text \<open>
  The state of the component, and the number of two-second timers that successful uploads
  have set and that have not fired yet.
\<close>

record upload_state =
  isDragOver :: bool
  up_file :: "File option"
  progress :: number
  up_status :: UploadStatus
  up_error :: "jsstring option"
  closeTimers :: nat

definition validTypes :: "jsstring list" where
  "validTypes =
     [lit ''application/pdf'', lit ''text/plain'',
      lit ''application/vnd.openxmlformats-officedocument.wordprocessingml.document'']"

definition maxSize :: nat where
  "maxSize = 10 * 1024 * 1024"

definition isValidFile :: "File \<Rightarrow> bool" where
  "isValidFile f \<longleftrightarrow> file_type f \<in> set validTypes \<and> file_size f \<le> maxSize"

definition invalid_file_msg :: jsstring where
  "invalid_file_msg =
     lit ''Ch'' @ [0x1EC9] @ lit '' h'' @ [0x1ED7] @ lit '' tr'' @ [0x1EE3] @
     lit '' file PDF, TXT, DOCX (t'' @ [0x1ED1] @ lit ''i '' @ [0x111] @ lit ''a 10MB)''"

definition upload_fallback_msg :: jsstring where
  "upload_fallback_msg = lit ''Upload th'' @ [0x1EA5] @ lit ''t b'' @ [0x1EA1] @ lit ''i''"

text \<open>The argument is \<^verbatim>\<open>e.dataTransfer.files[0]\<close>, \<open>None\<close> when the list is empty.\<close>

definition handleDrop :: "File option \<Rightarrow> upload_state \<Rightarrow> upload_state" where
  "handleDrop droppedFile s =
     (case droppedFile of
        Some f \<Rightarrow>
          if isValidFile f then s\<lparr>isDragOver := False, up_file := Some f, up_error := None\<rparr>
          else s\<lparr>isDragOver := False, up_error := Some invalid_file_msg\<rparr>
      | None \<Rightarrow> s\<lparr>isDragOver := False, up_error := Some invalid_file_msg\<rparr>)"

definition handleFileSelect :: "File option \<Rightarrow> upload_state \<Rightarrow> upload_state" where
  "handleFileSelect selectedFile s =
     (case selectedFile of
        Some f \<Rightarrow>
          if isValidFile f then s\<lparr>up_file := Some f, up_error := None\<rparr>
          else s\<lparr>up_error := Some invalid_file_msg\<rparr>
      | None \<Rightarrow> s\<lparr>up_error := Some invalid_file_msg\<rparr>)"

definition handleReset :: "upload_state \<Rightarrow> upload_state" where
  "handleReset s = s\<lparr>up_file := None, progress := Finite 0, up_status := Idle, up_error := None\<rparr>"

text \<open>The state of a freshly mounted dialogue.\<close>

definition initial_upload_state :: upload_state where
  "initial_upload_state =
     \<lparr>isDragOver = False, up_file = None, progress = Finite 0, up_status = Idle, up_error = None,
      closeTimers = 0\<rparr>"

text \<open>
  \<^verbatim>\<open>handleUpload\<close> up to its \<^verbatim>\<open>await\<close>: the new state and the file handed to
  \<^verbatim>\<open>uploadDocument\<close>, if the upload starts.
\<close>

definition handleUpload_begin :: "upload_state \<Rightarrow> upload_state \<times> File option" where
  "handleUpload_begin s =
     (case up_file s of
        None \<Rightarrow> (s, None)
      | Some f \<Rightarrow> (s\<lparr>up_status := Uploading, progress := Finite 0, up_error := None\<rparr>, Some f))"

text \<open>The progress callback and the \<^verbatim>\<open>catch\<close> branch.\<close>

definition onProgress :: "number \<Rightarrow> upload_state \<Rightarrow> upload_state" where
  "onProgress prog s = s\<lparr>progress := prog\<rparr>"

definition handleUpload_reject :: "thrown \<Rightarrow> upload_state \<Rightarrow> upload_state" where
  "handleUpload_reject err s =
     s\<lparr>up_status := Error,
       up_error := Some (case err of ErrorObj m \<Rightarrow> m | NonError \<Rightarrow> upload_fallback_msg)\<rparr>"

text \<open>
  The rest of the \<^verbatim>\<open>try\<close> block after the upload has succeeded. The argument is what
  the call of \<^verbatim>\<open>onUploadComplete\<close> throws, \<open>None\<close> when it returns or when the
  component has been given no such callback; when it throws, the timer is not set and the
  \<^verbatim>\<open>catch\<close> branch runs.
\<close>

definition handleUpload_resolve :: "thrown option \<Rightarrow> upload_state \<Rightarrow> upload_state" where
  "handleUpload_resolve thrown_by_callback s =
     (case thrown_by_callback of
        None \<Rightarrow> s\<lparr>up_status := Success, closeTimers := closeTimers s + 1\<rparr>
      | Some err \<Rightarrow> handleUpload_reject err (s\<lparr>up_status := Success\<rparr>))"

text \<open>
  A whole call of \<^verbatim>\<open>handleUpload\<close>: the progress values reported while the upload
  runs, then how its promise settles (\<open>Inr\<close> is the upload response), and what
  \<^verbatim>\<open>onUploadComplete\<close> does with a response.
\<close>

definition handleUpload ::
  "number list \<Rightarrow> thrown + 'r \<Rightarrow> ('r \<Rightarrow> thrown option) \<Rightarrow> upload_state \<Rightarrow> upload_state" where
  "handleUpload progs outcome onUploadComplete s =
     (case handleUpload_begin s of
        (s', None) \<Rightarrow> s'
      | (s', Some f) \<Rightarrow>
          (case outcome of
             Inr result \<Rightarrow>
               handleUpload_resolve (onUploadComplete result) (fold onProgress progs s')
           | Inl err \<Rightarrow> handleUpload_reject err (fold onProgress progs s')))"

text \<open>
  What can happen to the dialogue: the user's actions, the events of a running upload and
  the firing of a timer set by a successful upload, which resets the dialogue and closes it.
\<close>

datatype upload_event =
  DragOver
| DragLeave
| Drop "File option"
| FileSelect "File option"
| Reset
| UploadClick
| Progress number
| UploadResolved "thrown option"
| UploadRejected thrown
| CloseTimer

fun upload_step :: "upload_event \<Rightarrow> upload_state \<Rightarrow> upload_state" where
  "upload_step DragOver s = s\<lparr>isDragOver := True\<rparr>"
| "upload_step DragLeave s = s\<lparr>isDragOver := False\<rparr>"
| "upload_step (Drop f) s = handleDrop f s"
| "upload_step (FileSelect f) s = handleFileSelect f s"
| "upload_step Reset s = handleReset s"
| "upload_step UploadClick s = fst (handleUpload_begin s)"
| "upload_step (Progress p) s = onProgress p s"
| "upload_step (UploadResolved c) s = handleUpload_resolve c s"
| "upload_step (UploadRejected err) s = handleUpload_reject err s"
| "upload_step CloseTimer s =
     (if closeTimers s = 0 then s else handleReset (s\<lparr>closeTimers := closeTimers s - 1\<rparr>))"

section \<open>The session list (ChatHistory)\<close>

record ChatSession =
  cs_session_id :: jsstring
  title :: jsstring
  created_at :: jsstring
  updated_at :: jsstring

record history_state =
  sessions :: "ChatSession list"
  h_loading :: bool
  h_error :: "jsstring option"
  deleteConfirm :: "jsstring option"

text \<open>How a \<^verbatim>\<open>fetch\<close> settles: it rejects, or resolves to a response.\<close>

datatype 'a fetched = Rejected thrown | Responded "'a response"

text \<open>
  \<^verbatim>\<open>handleDelete\<close> up to its \<^verbatim>\<open>await\<close>: the first click on a session asks for
  confirmation and sends nothing (the second component is \<open>False\<close>); the next one sends
  the \<^verbatim>\<open>DELETE\<close> request.
\<close>

definition handleDelete_begin :: "jsstring \<Rightarrow> history_state \<Rightarrow> history_state \<times> bool" where
  "handleDelete_begin sessionId s =
     (if deleteConfirm s \<noteq> Some sessionId then (s\<lparr>deleteConfirm := Some sessionId\<rparr>, False)
      else (s, True))"

text \<open>
  The rest of \<^verbatim>\<open>handleDelete\<close>, once the request has settled as \<open>reply\<close>. The second
  argument tells whether the call of \<^verbatim>\<open>onDeleteSession\<close> throws (it is \<open>False\<close> when
  the component has been given no such callback); if it does, the \<^verbatim>\<open>catch\<close> branch
  runs after the session has been removed from the list.
\<close>

definition handleDelete_settle ::
  "jsstring \<Rightarrow> bool \<Rightarrow> 'a fetched \<Rightarrow> history_state \<Rightarrow> history_state" where
  "handleDelete_settle sessionId callback_throws reply s =
     (case reply of
        Responded r \<Rightarrow>
          if \<not> ok r then s\<lparr>h_error := Some (lit ''Failed to delete session'')\<rparr>
          else if callback_throws then
            s\<lparr>sessions := filter (\<lambda>x. cs_session_id x \<noteq> sessionId) (sessions s),
              h_error := Some (lit ''Failed to delete session'')\<rparr>
          else
            s\<lparr>sessions := filter (\<lambda>x. cs_session_id x \<noteq> sessionId) (sessions s),
              deleteConfirm := None\<rparr>
      | Rejected err \<Rightarrow> s\<lparr>h_error := Some (lit ''Failed to delete session'')\<rparr>)"

definition handleDelete ::
  "jsstring \<Rightarrow> bool \<Rightarrow> 'a fetched \<Rightarrow> history_state \<Rightarrow> history_state" where
  "handleDelete sessionId callback_throws reply s =
     (case handleDelete_begin sessionId s of
        (s', False) \<Rightarrow> s'
      | (s', True) \<Rightarrow> handleDelete_settle sessionId callback_throws reply s')"

text \<open>\<^verbatim>\<open>deleteSession\<close> of the API client, after \<^verbatim>\<open>fetch\<close> has resolved to a response.\<close>

definition deleteSession_response :: "'a response \<Rightarrow> thrown + unit" where
  "deleteSession_response r =
     (if \<not> ok r then Inl (ErrorObj (lit ''Failed to delete session: '' @ dec (status r)))
      else Inr ())"

section \<open>The provider settings (SettingsPanel)\<close>

record LLMProvider =
  provider_id :: jsstring
  provider_name :: jsstring
  models :: "jsstring list"
  default_model :: jsstring
  has_api_key :: bool
  cost_per_1m_input :: number
  cost_per_1m_output :: number

record settings_state =
  providers :: "LLMProvider list"
  activeProvider :: jsstring
  activeModel :: jsstring
  loading :: bool
  apiKeyInput :: jsstring
  showKeyInput :: "jsstring option"
  testResult :: "(bool \<times> jsstring) option"

record set_provider_body =
  sp_provider :: jsstring
  sp_model :: "jsstring option"
  sp_api_key :: "jsstring option"

datatype request = SetProvider set_provider_body | GetProviders

text \<open>
  How the request to \<^verbatim>\<open>/api/llm/set-provider\<close> ends for the client: \<^verbatim>\<open>fetch\<close> or
  \<^verbatim>\<open>res.json()\<close> throws, or the body is read, with its \<^verbatim>\<open>status\<close> property (\<open>None\<close>
  when it is not a string) and its \<^verbatim>\<open>model\<close> property.
\<close>

datatype switch_reply = SwitchThrows | SwitchData "jsstring option" jsstring

text \<open>
  The same for \<^verbatim>\<open>/api/llm/providers\<close>; the \<^verbatim>\<open>providers\<close> property is \<open>None\<close> when
  it is absent.
\<close>

datatype providers_reply = ProvidersThrows | ProvidersData "LLMProvider list option"

definition fetchProviders :: "providers_reply \<Rightarrow> settings_state \<Rightarrow> settings_state" where
  "fetchProviders reply s =
     (case reply of
        ProvidersThrows \<Rightarrow> s
      | ProvidersData ps \<Rightarrow> s\<lparr>providers := (case ps of None \<Rightarrow> [] | Some l \<Rightarrow> l)\<rparr>)"

text \<open>\<^verbatim>\<open>switchProvider\<close>: the state when it has finished and the requests it has sent.\<close>

definition switchProvider ::
  "jsstring \<Rightarrow> jsstring option \<Rightarrow> switch_reply \<Rightarrow> providers_reply \<Rightarrow> settings_state \<Rightarrow>
   settings_state \<times> request list" where
  "switchProvider providerId model reply preply s =
     (let req = SetProvider
            \<lparr>sp_provider = providerId, sp_model = model,
             sp_api_key = (if apiKeyInput s = [] then None else Some (apiKeyInput s))\<rparr>;
          s1 = s\<lparr>loading := True, testResult := None\<rparr>
      in case reply of
           SwitchData st m \<Rightarrow>
             if st = Some (lit ''success'') then
               ((fetchProviders preply
                   (s1\<lparr>activeProvider := providerId, activeModel := m, apiKeyInput := [],
                       showKeyInput := None\<rparr>))\<lparr>loading := False\<rparr>,
                [req, GetProviders])
             else (s1\<lparr>loading := False\<rparr>, [req])
         | SwitchThrows \<Rightarrow> (s1\<lparr>loading := False\<rparr>, [req]))"

definition needsKey :: "LLMProvider \<Rightarrow> bool" where
  "needsKey provider \<longleftrightarrow> provider_id provider \<noteq> lit ''local_ollama'' \<and> \<not> has_api_key provider"

text \<open>The click handler of a provider's button.\<close>

definition provider_click ::
  "LLMProvider \<Rightarrow> switch_reply \<Rightarrow> providers_reply \<Rightarrow> settings_state \<Rightarrow>
   settings_state \<times> request list" where
  "provider_click provider reply preply s =
     (if needsKey provider then (s\<lparr>showKeyInput := Some (provider_id provider)\<rparr>, [])
      else switchProvider (provider_id provider) None reply preply s)"

text \<open>The state of a freshly mounted settings panel.\<close>

definition initial_settings_state :: "settings_state" where
  "initial_settings_state =
     \<lparr>providers = [], activeProvider = lit ''local_ollama'', activeModel = lit ''qwen2.5:3b'',
      loading = False, apiKeyInput = [], showKeyInput = None, testResult = None\<rparr>"

section \<open>Example inputs\<close>

definition example_props :: ChatAreaProps where
  "example_props =
     \<lparr>p_userId = lit ''u1'', p_sessionId = lit ''s1'', p_searchMode = Hybrid,
      p_rerankerEnabled = True\<rparr>"

definition example_runtime :: runtime where
  "example_runtime =
     \<lparr>null_property_msg = lit ''Cannot read properties of null'',
      json_syntax_msg = lit ''Unexpected token''\<rparr>"

definition example_pdf :: File where
  "example_pdf =
     \<lparr>file_name = lit ''law.pdf'', file_type = lit ''application/pdf'', file_size = 2048\<rparr>"

definition example_session :: ChatSession where
  "example_session =
     \<lparr>cs_session_id = lit ''s1'', title = lit ''Theft'', created_at = lit ''2025-01-01'',
      updated_at = lit ''2025-01-02''\<rparr>"

text \<open>A session list on which the user has already clicked once on the bin of \<open>s1\<close>.\<close>

definition example_history :: history_state where
  "example_history =
     \<lparr>sessions = [example_session], h_loading = False, h_error = None,
      deleteConfirm = Some (lit ''s1'')\<rparr>"

definition example_openai :: "LLMProvider" where
  "example_openai =
     \<lparr>provider_id = lit ''openai'', provider_name = lit ''OpenAI'',
      models = [lit ''gpt-4o-mini''], default_model = lit ''gpt-4o-mini'', has_api_key = False,
      cost_per_1m_input = Finite (1 / 2), cost_per_1m_output = Finite 2\<rparr>"

section \<open>Chat turns\<close>

text \<open>
  C1. A chat turn whose request rejects leaves the message list exactly as it was before
  the turn: the user message appended before the request is removed again and no assistant
  message is added.
\<close>

theorem failed_turn_leaves_no_trace:
  assumes "handleSend_begin p now s = (s', Some req)"
    and "outcome req = Inl err \<or> outcome req = Inr None"
  shows "messages s' = messages s @
           [\<lparr>role = RoleUser, content = input s, citations = None, m_grade = None,
             m_metrics = None, timestamp = Some now\<rparr>] \<and>
         messages (handleSend p rt now now' outcome s) = messages s"
  using assms
  by (auto simp: handleSend_def handleSend_begin_def handleSend_settle_def handleSend_catch_def
      split: if_splits)

theorem failed_turn_leaves_no_trace_witness:
  "handleSend_begin example_props (lit ''10:15'')
     ((initial_chat_state None :: chat_state)\<lparr>input := lit ''hello''\<rparr>)
   = (\<lparr>messages =
         [plain_message RoleAssistant greeting,
          \<lparr>role = RoleUser, content = lit ''hello'', citations = None, m_grade = None,
           m_metrics = None, timestamp = Some (lit ''10:15'')\<rparr>],
       input = [], isLoading = True, error = None\<rparr>,
      Some \<lparr>message = lit ''hello'', user_id = lit ''u1'', session_id = lit ''s1'',
            search_mode = Hybrid, reranker_enabled = True\<rparr>) \<and>
   messages
     (handleSend example_props example_runtime (lit ''10:15'') (lit ''10:16'')
        (\<lambda>req. Inl (ErrorObj (lit ''Chat failed: 500'')))
        ((initial_chat_state None :: chat_state)\<lparr>input := lit ''hello''\<rparr>))
   = [plain_message RoleAssistant greeting]"
proof -
  have b: "handleSend_begin example_props (lit ''10:15'')
     ((initial_chat_state None :: chat_state)\<lparr>input := lit ''hello''\<rparr>)
   = (\<lparr>messages =
         [plain_message RoleAssistant greeting,
          \<lparr>role = RoleUser, content = lit ''hello'', citations = None, m_grade = None,
           m_metrics = None, timestamp = Some (lit ''10:15'')\<rparr>],
       input = [], isLoading = True, error = None\<rparr>,
      Some \<lparr>message = lit ''hello'', user_id = lit ''u1'', session_id = lit ''s1'',
            search_mode = Hybrid, reranker_enabled = True\<rparr>)"
    by (simp add: handleSend_begin_def initial_chat_state_def trim_def lit_def is_js_space_def
        chat_request_def example_props_def)
  from failed_turn_leaves_no_trace
    [OF b, of "\<lambda>req. Inl (ErrorObj (lit ''Chat failed: 500''))"
      "ErrorObj (lit ''Chat failed: 500'')" example_runtime "lit ''10:16''"] b
  show ?thesis by (simp add: initial_chat_state_def)
qed

text \<open>
  After a failed turn the retry handler looks for the last user message in the list from
  which the failed turn's message has just been removed: it finds the user message of an
  earlier turn, or none.
\<close>

lemma retry_after_failure:
  assumes "handleSend_begin p now s = (s', Some req)" and "outcome req = Inl err"
  shows "input (handleRetry (handleSend p rt now now' outcome s)) =
           (case find (\<lambda>m. role m = RoleUser) (rev (messages s)) of
              Some m \<Rightarrow> content m
            | None \<Rightarrow> [])"
  using assms
  by (auto simp: handleRetry_def handleSend_def handleSend_begin_def handleSend_settle_def
      handleSend_catch_def split: if_splits option.splits)

text \<open>
  C4. After a failed turn, the retry handler should fill the input field with the text of
  the failed turn. In a new conversation the user sends \<open>hello\<close>, the server answers 500
  and the user presses retry: the input field stays empty and the error stays displayed.
\<close>

theorem retry_after_failed_first_turn:
  "handleRetry
     (handleSend example_props example_runtime (lit ''10:15'') (lit ''10:16'')
        (\<lambda>req. chat_response example_runtime \<lparr>status = 500, body = NotJson\<rparr>)
        ((initial_chat_state None :: chat_state)\<lparr>input := lit ''hello''\<rparr>))
   = \<lparr>messages = [plain_message RoleAssistant greeting], input = [], isLoading = False,
      error = Some (lit ''Chat failed: 500'')\<rparr>"
  by (simp add: handleRetry_def handleSend_def handleSend_begin_def handleSend_settle_def
      handleSend_catch_def initial_chat_state_def plain_message_def chat_response_def ok_def
      trim_def lit_def is_js_space_def dec.simps example_props_def)

text \<open>
  C9. When the input is empty after trimming, or a request is in flight, the send handler
  returns without calling \<^verbatim>\<open>chat\<close> and without changing the state; every request it
  does make carries a message that is not empty after trimming.
\<close>

theorem blank_input_sends_nothing:
  "(trim (input s) = [] \<or> isLoading s \<longrightarrow>
      handleSend_begin p now s = (s, None) \<and> handleSend p rt now now' outcome s = s) \<and>
   (\<forall>s' req. handleSend_begin p now s = (s', Some req) \<longrightarrow>
      trim (message req) \<noteq> [] \<and> \<not> isLoading s)"
  by (auto simp: handleSend_def handleSend_begin_def chat_request_def split: if_splits)

theorem blank_input_sends_nothing_witness:
  "trim (lit ''  '' @ [0x9, 0xA0]) = [] \<and>
   handleSend_begin example_props (lit ''10:15'')
     ((initial_chat_state None :: chat_state)\<lparr>input := lit ''  '' @ [0x9, 0xA0]\<rparr>)
   = ((initial_chat_state None)\<lparr>input := lit ''  '' @ [0x9, 0xA0]\<rparr>, None)"
  using blank_input_sends_nothing
    [of "(initial_chat_state None :: chat_state)\<lparr>input := lit ''  '' @ [0x9, 0xA0]\<rparr>"
      example_props "lit ''10:15''"]
  by (simp add: trim_def lit_def is_js_space_def)

section \<open>Requests and responses of the API client\<close>

text \<open>
  C10. When the \<^verbatim>\<open>searchMode\<close> option of \<^verbatim>\<open>chat\<close> is omitted the body carries
  \<^verbatim>\<open>search_mode = 'hybrid'\<close>, and when \<^verbatim>\<open>rerankerEnabled\<close> is omitted it carries
  \<^verbatim>\<open>reranker_enabled = true\<close>; for \<^verbatim>\<open>search\<close> the defaults are \<^verbatim>\<open>'hybrid'\<close> and
  \<^verbatim>\<open>top_k = 5\<close>.
\<close>

theorem omitted_options_defaults:
  "(searchMode options = None \<longrightarrow>
      search_mode (chat_request msg userId sessionId options) = Hybrid) \<and>
   (rerankerEnabled options = None \<longrightarrow>
      reranker_enabled (chat_request msg userId sessionId options) = True) \<and>
   (so_searchMode soptions = None \<longrightarrow>
      sb_search_mode (search_request q userId soptions) = Hybrid) \<and>
   (topK soptions = None \<longrightarrow> top_k (search_request q userId soptions) = Finite 5) \<and>
   chat_request msg userId sessionId no_chat_options =
     \<lparr>message = msg, user_id = userId, session_id = sessionId, search_mode = Hybrid,
      reranker_enabled = True\<rparr> \<and>
   search_request q userId no_search_options =
     \<lparr>query = q, sb_user_id = userId, sb_search_mode = Hybrid, top_k = Finite 5\<rparr>"
  by (simp add: chat_request_def search_request_def no_chat_options_def no_search_options_def)

theorem omitted_options_defaults_witness:
  "searchMode \<lparr>searchMode = None, rerankerEnabled = Some False\<rparr> = None \<and>
   chat_request (lit ''hi'') (lit ''u1'') (lit ''s1'')
     \<lparr>searchMode = None, rerankerEnabled = Some False\<rparr>
   = \<lparr>message = lit ''hi'', user_id = lit ''u1'', session_id = lit ''s1'',
      search_mode = Hybrid, reranker_enabled = False\<rparr> \<and>
   topK \<lparr>so_searchMode = Some Legal, topK = None\<rparr> = None \<and>
   search_request (lit ''q'') (lit ''u1'') \<lparr>so_searchMode = Some Legal, topK = None\<rparr>
   = \<lparr>query = lit ''q'', sb_user_id = lit ''u1'', sb_search_mode = Legal, top_k = Finite 5\<rparr>"
  using omitted_options_defaults
    [of "\<lparr>searchMode = None, rerankerEnabled = Some False\<rparr>" "lit ''hi''" "lit ''u1''"
      "lit ''s1''" "\<lparr>so_searchMode = Some Legal, topK = None\<rparr>" "lit ''q''"]
  by (simp add: chat_request_def search_request_def)

text \<open>
  C3, as stated: on a response that is not 2xx the message of the thrown error is the
  \<^verbatim>\<open>detail\<close> property of the body whenever that property is present. It is not so for
  the body \<^verbatim>\<open>{"detail": ""}\<close> with status 500: the message is the generic one.
\<close>

theorem chat_detail_counterexample:
  "\<not> ok \<lparr>status = 500, body = Json (DetailStr []) ()\<rparr> \<and>
   chat_response example_runtime \<lparr>status = 500, body = Json (DetailStr []) ()\<rparr>
     = Inl (ErrorObj (lit ''Chat failed: 500'')) \<and>
   chat_response example_runtime \<lparr>status = 500, body = Json (DetailStr []) ()\<rparr>
     \<noteq> Inl (ErrorObj [])"
  by (simp add: chat_response_def ok_def dec.simps lit_def example_runtime_def)

text \<open>
  C3, amended. On a response that is not 2xx, \<^verbatim>\<open>chat\<close> throws an error and returns no
  \<^verbatim>\<open>ChatResponse\<close>. The message of the error is the \<^verbatim>\<open>detail\<close> property of the body
  when that property is a string that is not empty; it is \<^verbatim>\<open>Chat failed: \<close> followed by
  the status when the body is not JSON, or is a JSON value other than \<^verbatim>\<open>null\<close> that has
  no \<^verbatim>\<open>detail\<close> property or has the empty string there.
\<close>

theorem chat_non_2xx_throws:
  "\<not> ok r \<longrightarrow>
     (\<exists>m. chat_response rt r = Inl (ErrorObj m)) \<and>
     (\<forall>d a. body r = Json (DetailStr d) a \<and> d \<noteq> [] \<longrightarrow>
        chat_response rt r = Inl (ErrorObj d)) \<and>
     (body r = NotJson \<or> (\<exists>a. body r = Json Absent a) \<or>
      (\<exists>a. body r = Json (DetailStr []) a) \<longrightarrow>
        chat_response rt r = Inl (ErrorObj (lit ''Chat failed: '' @ dec (status r))))"
  by (auto simp: chat_response_def split: body.splits)

theorem chat_non_2xx_throws_witness:
  "\<not> ok \<lparr>status = 422, body = Json (DetailStr (lit ''message must not be empty'')) ()\<rparr> \<and>
   chat_response example_runtime
     \<lparr>status = 422, body = Json (DetailStr (lit ''message must not be empty'')) ()\<rparr>
   = Inl (ErrorObj (lit ''message must not be empty'')) \<and>
   \<not> ok \<lparr>status = 502, body = (NotJson :: unit body)\<rparr> \<and>
   chat_response example_runtime \<lparr>status = 502, body = (NotJson :: unit body)\<rparr>
   = Inl (ErrorObj (lit ''Chat failed: 502''))"
  using chat_non_2xx_throws
    [of "\<lparr>status = 422, body = Json (DetailStr (lit ''message must not be empty'')) ()\<rparr>"
      example_runtime]
    chat_non_2xx_throws [of "\<lparr>status = 502, body = (NotJson :: unit body)\<rparr>" example_runtime]
  by (simp add: ok_def lit_def dec.simps)

section \<open>Uploads\<close>

text \<open>Whatever happens to the dialogue, the selected file, if there is one, is valid.\<close>

lemma upload_step_valid:
  assumes "\<forall>g. up_file s = Some g \<longrightarrow> isValidFile g"
  shows "\<forall>g. up_file (upload_step e s) = Some g \<longrightarrow> isValidFile g"
  using assms
  by (cases e)
    (auto simp: handleDrop_def handleFileSelect_def handleReset_def handleUpload_begin_def
      onProgress_def handleUpload_resolve_def handleUpload_reject_def
      split: option.splits if_splits)

lemma fold_upload_step_valid:
  "(\<forall>g. up_file s = Some g \<longrightarrow> isValidFile g) \<Longrightarrow>
   (\<forall>g. up_file (fold upload_step evs s) = Some g \<longrightarrow> isValidFile g)"
proof (induction evs arbitrary: s)
  case Nil
  then show ?case by simp
next
  case (Cons e evs)
  from upload_step_valid [OF Cons.prems]
  have "\<forall>g. up_file (upload_step e s) = Some g \<longrightarrow> isValidFile g" .
  from Cons.IH [OF this] show ?case by simp
qed

text \<open>
  C2, as stated: a rejected file gets a reason that tells an unsupported type from a file
  that is too large. A PNG image of 1 KB and a PDF of 11 MB are both rejected, with the
  same message.
\<close>

theorem rejection_reason_counterexample:
  "file_type \<lparr>file_name = lit ''a.png'', file_type = lit ''image/png'', file_size = 1024\<rparr>
     \<notin> set validTypes \<and>
   file_size \<lparr>file_name = lit ''a.png'', file_type = lit ''image/png'', file_size = 1024\<rparr>
     \<le> maxSize \<and>
   file_type \<lparr>file_name = lit ''b.pdf'', file_type = lit ''application/pdf'',
              file_size = 11 * 1024 * 1024\<rparr> \<in> set validTypes \<and>
   \<not> file_size \<lparr>file_name = lit ''b.pdf'', file_type = lit ''application/pdf'',
                file_size = 11 * 1024 * 1024\<rparr> \<le> maxSize \<and>
   up_error (handleDrop
      (Some \<lparr>file_name = lit ''a.png'', file_type = lit ''image/png'', file_size = 1024\<rparr>)
      initial_upload_state)
   = up_error (handleDrop
      (Some \<lparr>file_name = lit ''b.pdf'', file_type = lit ''application/pdf'',
             file_size = 11 * 1024 * 1024\<rparr>)
      initial_upload_state)"
  by (simp add: handleDrop_def isValidFile_def validTypes_def maxSize_def lit_def
      initial_upload_state_def)

text \<open>
  C2, amended. The validator accepts a file if and only if its type is PDF, plain text or
  DOCX and its size is at most 10 * 1024 * 1024 bytes. Any other file that is dropped or
  chosen is rejected with one fixed message, which names the supported types and the size
  limit, and does not become the selected file; whatever the user does, a file handed to
  the upload is a valid one.
\<close>

theorem isValidFile_gate:
  "(isValidFile f \<longleftrightarrow>
      (file_type f = lit ''application/pdf'' \<or> file_type f = lit ''text/plain'' \<or>
       file_type f =
         lit ''application/vnd.openxmlformats-officedocument.wordprocessingml.document'') \<and>
      file_size f \<le> 10 * 1024 * 1024) \<and>
   (\<not> isValidFile f \<longrightarrow>
      handleDrop (Some f) s = s\<lparr>isDragOver := False, up_error := Some invalid_file_msg\<rparr> \<and>
      handleFileSelect (Some f) s = s\<lparr>up_error := Some invalid_file_msg\<rparr>) \<and>
   (\<forall>g. snd (handleUpload_begin (fold upload_step evs initial_upload_state)) = Some g \<longrightarrow>
      isValidFile g)"
proof -
  have "\<forall>g. up_file (fold upload_step evs initial_upload_state) = Some g \<longrightarrow> isValidFile g"
    by (rule fold_upload_step_valid) (simp add: initial_upload_state_def)
  then have
    "\<forall>g. snd (handleUpload_begin (fold upload_step evs initial_upload_state)) = Some g \<longrightarrow>
      isValidFile g"
    by (auto simp: handleUpload_begin_def split: option.splits)
  then show ?thesis
    by (simp add: isValidFile_def validTypes_def maxSize_def handleDrop_def
        handleFileSelect_def)
qed

theorem isValidFile_gate_witness:
  "\<not> isValidFile \<lparr>file_name = lit ''b.pdf'', file_type = lit ''application/pdf'',
                  file_size = 11 * 1024 * 1024\<rparr> \<and>
   handleDrop
     (Some \<lparr>file_name = lit ''b.pdf'', file_type = lit ''application/pdf'',
            file_size = 11 * 1024 * 1024\<rparr>)
     initial_upload_state
   = initial_upload_state\<lparr>up_error := Some invalid_file_msg\<rparr> \<and>
   snd (handleUpload_begin
          (fold upload_step [Drop (Some example_pdf), UploadClick, Progress (Finite 40)]
             initial_upload_state))
   = Some example_pdf \<and>
   isValidFile example_pdf"
  using isValidFile_gate
    [of "\<lparr>file_name = lit ''b.pdf'', file_type = lit ''application/pdf'',
          file_size = 11 * 1024 * 1024\<rparr>"
      initial_upload_state "[Drop (Some example_pdf), UploadClick, Progress (Finite 40)]"]
  by (simp add: initial_upload_state_def example_pdf_def lit_def handleDrop_def
      isValidFile_def validTypes_def maxSize_def handleUpload_begin_def onProgress_def)

lemma fold_onProgress_frame:
  "up_file (fold onProgress progs s) = up_file s \<and>
   isDragOver (fold onProgress progs s) = isDragOver s \<and>
   up_status (fold onProgress progs s) = up_status s \<and>
   up_error (fold onProgress progs s) = up_error s \<and>
   closeTimers (fold onProgress progs s) = closeTimers s"
  by (induction progs arbitrary: s) (simp_all add: onProgress_def)

text \<open>
  C7. A call of \<^verbatim>\<open>handleUpload\<close> leaves the selected file as it was, however the
  upload ends, and the failure branch changes nothing but the status and the error. A
  selected file is cleared only by a reset or by the timer of a successful upload, and
  only a successful upload sets such a timer.
\<close>

theorem failed_upload_keeps_file:
  "up_file (handleUpload progs outcome onUploadComplete s) = up_file s \<and>
   up_file (handleUpload_reject err s) = up_file s \<and>
   isDragOver (handleUpload_reject err s) = isDragOver s \<and>
   progress (handleUpload_reject err s) = progress s \<and>
   closeTimers (handleUpload_reject err s) = closeTimers s \<and>
   (up_file s \<noteq> None \<and> up_file (upload_step e s) = None \<longrightarrow>
      e = Reset \<or> (e = CloseTimer \<and> 0 < closeTimers s)) \<and>
   (closeTimers s < closeTimers (upload_step e s) \<longrightarrow> e = UploadResolved None)"
proof -
  have a: "up_file (handleUpload progs outcome onUploadComplete s) = up_file s"
    by (simp add: handleUpload_def handleUpload_begin_def handleUpload_reject_def
        handleUpload_resolve_def fold_onProgress_frame split: option.splits sum.splits)
  have b: "up_file s \<noteq> None \<and> up_file (upload_step e s) = None \<longrightarrow>
      e = Reset \<or> (e = CloseTimer \<and> 0 < closeTimers s)"
    by (cases e)
      (auto simp: handleDrop_def handleFileSelect_def handleReset_def handleUpload_begin_def
        onProgress_def handleUpload_resolve_def handleUpload_reject_def
        split: option.splits if_splits)
  have c: "closeTimers s < closeTimers (upload_step e s) \<longrightarrow> e = UploadResolved None"
    by (cases e)
      (auto simp: handleDrop_def handleFileSelect_def handleReset_def handleUpload_begin_def
        onProgress_def handleUpload_resolve_def handleUpload_reject_def
        split: option.splits if_splits)
  from a b c show ?thesis by (simp add: handleUpload_reject_def)
qed

theorem failed_upload_keeps_file_witness:
  "handleUpload [Finite 10, Finite 55]
     (Inl (ErrorObj (lit ''Upload failed: 500'')) :: thrown + unit) (\<lambda>result. None)
     (initial_upload_state\<lparr>up_file := Some example_pdf\<rparr>)
   = \<lparr>isDragOver = False, up_file = Some example_pdf, progress = Finite 55,
      up_status = Error, up_error = Some (lit ''Upload failed: 500''), closeTimers = 0\<rparr> \<and>
   up_file (initial_upload_state\<lparr>up_file := Some example_pdf\<rparr>) \<noteq> None \<and>
   up_file (upload_step Reset (initial_upload_state\<lparr>up_file := Some example_pdf\<rparr>)) = None \<and>
   closeTimers (initial_upload_state\<lparr>up_file := Some example_pdf\<rparr>)
     < closeTimers
         (upload_step (UploadResolved None)
            (initial_upload_state\<lparr>up_file := Some example_pdf\<rparr>))"
  using failed_upload_keeps_file
    [of "[Finite 10, Finite 55]" "Inl (ErrorObj (lit ''Upload failed: 500'')) :: thrown + unit"
      "\<lambda>result. None" "initial_upload_state\<lparr>up_file := Some example_pdf\<rparr>"
      "ErrorObj (lit ''Upload failed: 500'')" Reset]
    failed_upload_keeps_file
    [of "[]" "Inl (ErrorObj (lit ''Upload failed: 500'')) :: thrown + unit"
      "\<lambda>result. None" "initial_upload_state\<lparr>up_file := Some example_pdf\<rparr>"
      "ErrorObj (lit ''Upload failed: 500'')" "UploadResolved None"]
  by (simp add: initial_upload_state_def handleUpload_def handleUpload_begin_def
      handleUpload_reject_def onProgress_def handleReset_def handleUpload_resolve_def)

section \<open>Rounding to a double\<close>

lemma norm_up_bounds:
  "1 \<le> x \<Longrightarrow> 2 powi norm_up x \<le> x \<and> x < 2 powi (norm_up x + 1)"
proof (induction x rule: norm_up.induct)
  case (1 x)
  show ?case
  proof (cases "x < 2")
    case True
    with "1.prems" show ?thesis by (simp add: norm_up.simps)
  next
    case False
    then have "1 \<le> x / 2" by simp
    with "1.IH" False
    have ih: "2 powi norm_up (x / 2) \<le> x / 2" "x / 2 < 2 powi (norm_up (x / 2) + 1)"
      by simp_all
    have eq: "norm_up x = norm_up (x / 2) + 1" using False by (simp add: norm_up.simps)
    have p: "(2::rat) powi (norm_up (x / 2) + 1 + 1) = 2 powi (norm_up (x / 2) + 1) * 2"
      "(2::rat) powi (norm_up (x / 2) + 1) = 2 powi (norm_up (x / 2)) * 2"
      by (simp_all add: power_int_add)
    from ih show ?thesis unfolding eq p(1) unfolding p(2) by simp
  qed
qed

lemma norm_down_bounds:
  "0 < x \<Longrightarrow> x < 1 \<Longrightarrow> 2 powi norm_down x \<le> x \<and> x < 2 powi (norm_down x + 1)"
proof (induction x rule: norm_down.induct)
  case (1 x)
  have eq: "norm_down x = norm_down (x * 2) - 1" using "1.prems" by (simp add: norm_down.simps)
  show ?case
  proof (cases "1 \<le> x * 2")
    case True
    then have "norm_down (x * 2) = 0" by (simp add: norm_down.simps)
    with eq have "norm_down x = - 1" by simp
    with True "1.prems" show ?thesis by (simp add: power_int_minus)
  next
    case False
    with "1.IH" "1.prems"
    have ih: "2 powi norm_down (x * 2) \<le> x * 2" "x * 2 < 2 powi (norm_down (x * 2) + 1)"
      by simp_all
    have p: "(2::rat) powi (norm_down (x * 2) + 1) = 2 powi (norm_down (x * 2) - 1 + 1) * 2"
      "(2::rat) powi norm_down (x * 2) = 2 powi (norm_down (x * 2) - 1) * 2"
      by (simp_all add: power_int_add power_int_diff)
    from ih show ?thesis unfolding eq unfolding p(1) unfolding p(2) by simp
  qed
qed

lemma exponent_bounds:
  "0 < x \<Longrightarrow> 2 powi exponent x \<le> x \<and> x < 2 powi (exponent x + 1)"
  using norm_up_bounds [of x] norm_down_bounds [of x] by (simp add: exponent_def)


lemma rte_of_int: "rte (of_int n) = n"
  by (simp add: rte_def)

lemma rte_range: "\<lfloor>x\<rfloor> \<le> rte x \<and> rte x \<le> \<lfloor>x\<rfloor> + 1"
  by (simp add: rte_def)

lemma rte_mono: "x \<le> y \<Longrightarrow> rte x \<le> rte y"
proof -
  assume xy: "x \<le> y"
  then have fl: "\<lfloor>x\<rfloor> \<le> \<lfloor>y\<rfloor>" by (rule floor_mono)
  show ?thesis
  proof (cases "\<lfloor>x\<rfloor> = \<lfloor>y\<rfloor>")
    case True
    with xy show ?thesis by (auto simp: rte_def)
  next
    case False
    with fl have "\<lfloor>x\<rfloor> + 1 \<le> \<lfloor>y\<rfloor>" by simp
    with rte_range [of x] rte_range [of y] show ?thesis by linarith
  qed
qed

lemma pow2_less_iff: "(2::rat) powi a < 2 powi b \<longleftrightarrow> a < b"
proof
  assume l: "(2::rat) powi a < 2 powi b"
  show "a < b"
  proof (rule ccontr)
    assume "\<not> a < b"
    then have "b \<le> a" by simp
    then have "(2::rat) powi b \<le> 2 powi a" by (rule power_int_increasing) simp
    with l show False by simp
  qed
next
  assume "a < b"
  then show "(2::rat) powi a < 2 powi b" by (rule power_int_strict_increasing) simp
qed

lemma pow2_le_iff: "(2::rat) powi a \<le> 2 powi b \<longleftrightarrow> a \<le> b"
  using pow2_less_iff [of b a] by (simp add: not_less [symmetric])

lemma exponent_unique:
  assumes "2 powi k \<le> x" and "x < 2 powi (k + 1)"
  shows "exponent x = k"
proof -
  have "(0::rat) < 2 powi k" by simp
  with assms(1) have pos: "0 < x" by linarith
  note b = exponent_bounds [OF pos]
  from b assms have "(2::rat) powi exponent x < 2 powi (k + 1)" by linarith
  then have 1: "exponent x < k + 1" by (simp only: pow2_less_iff)
  from b assms have "(2::rat) powi k < 2 powi (exponent x + 1)" by linarith
  then have 2: "k < exponent x + 1" by (simp only: pow2_less_iff)
  from 1 2 show ?thesis by simp
qed

lemma pow2_split52: "(2::rat) powi k = 2 ^ 52 * 2 powi (k - 52)"
proof -
  have "k = 52 + (k - 52)" by simp
  then have "(2::rat) powi k = 2 powi (52 + (k - 52))" by (rule arg_cong)
  also have "\<dots> = 2 powi 52 * 2 powi (k - 52)" by (rule power_int_add) simp
  also have "(2::rat) powi 52 = 2 ^ 52" by (rule power_int_numeral)
  finally show ?thesis .
qed

lemma pow2_split53: "(2::rat) powi (k + 1) = 2 ^ 53 * 2 powi (k - 52)"
proof -
  have "k + 1 = 53 + (k - 52)" by simp
  then have "(2::rat) powi (k + 1) = 2 powi (53 + (k - 52))" by (rule arg_cong)
  also have "\<dots> = 2 powi 53 * 2 powi (k - 52)" by (rule power_int_add) simp
  also have "(2::rat) powi 53 = 2 ^ 53" by (rule power_int_numeral)
  finally show ?thesis .
qed

lemma div_less_of_less_mult: "0 < q \<Longrightarrow> x < m * q \<Longrightarrow> x / q < (m::rat)"
  by (simp add: pos_divide_less_eq)

lemma le_div_of_mult_le: "0 < q \<Longrightarrow> m * q \<le> x \<Longrightarrow> (m::rat) \<le> x / q"
  by (simp add: pos_le_divide_eq)

lemma quantum_pos: "0 < quantum x"
  by (simp add: quantum_def)

lemma below_next_binade:
  assumes "0 < x"
  shows "x / quantum x < 2 ^ 53"
proof -
  let ?e = "max (exponent x) (- 1022)"
  have "x < 2 powi (exponent x + 1)" using exponent_bounds [OF assms] by simp
  also have "\<dots> \<le> 2 powi (?e + 1)" by (simp add: pow2_le_iff)
  also have "\<dots> = 2 ^ 53 * quantum x" unfolding quantum_def by (rule pow2_split53)
  finally show ?thesis by (rule div_less_of_less_mult [OF quantum_pos])
qed

lemma above_binade:
  assumes "0 < x" and "- 1022 \<le> exponent x"
  shows "2 ^ 52 \<le> x / quantum x"
proof -
  have e: "max (exponent x) (- 1022) = exponent x" using assms(2) by simp
  have "2 ^ 52 * quantum x = 2 powi exponent x"
    unfolding quantum_def e by (rule pow2_split52 [symmetric])
  also have "\<dots> \<le> x" using exponent_bounds [OF assms(1)] by simp
  finally show ?thesis by (rule le_div_of_mult_le [OF quantum_pos])
qed

lemma rnd_nonneg_eq: "0 \<le> x \<Longrightarrow> rnd x = of_int (rte (x / quantum x)) * quantum x"
  by (cases "x = 0") (simp_all add: rnd_def rte_def)

lemma rnd_upper:
  assumes "0 < x"
  shows "rnd x \<le> 2 powi (max (exponent x) (- 1022) + 1)"
proof -
  have "x / quantum x \<le> of_int (2 ^ 53)"
    using below_next_binade [OF assms] by simp
  then have "rte (x / quantum x) \<le> rte (of_int (2 ^ 53))" by (rule rte_mono)
  then have "rte (x / quantum x) \<le> 2 ^ 53" by (simp only: rte_of_int)
  then have "(of_int (rte (x / quantum x)) :: rat) \<le> of_int (2 ^ 53)"
    by (simp only: of_int_le_iff)
  then have "(of_int (rte (x / quantum x)) :: rat) \<le> 2 ^ 53" by simp
  then have "of_int (rte (x / quantum x)) * quantum x \<le> 2 ^ 53 * quantum x"
    by (rule mult_right_mono) (rule less_imp_le [OF quantum_pos])
  also have "\<dots> = 2 powi (max (exponent x) (- 1022) + 1)"
    unfolding quantum_def by (rule pow2_split53 [symmetric])
  finally show ?thesis using assms by (simp only: rnd_nonneg_eq [OF less_imp_le])
qed

lemma rnd_lower:
  assumes "0 < x" and "- 1022 \<le> exponent x"
  shows "2 powi exponent x \<le> rnd x"
proof -
  have e: "max (exponent x) (- 1022) = exponent x" using assms(2) by simp
  have "of_int (2 ^ 52) \<le> x / quantum x"
    using above_binade [OF assms] by simp
  then have "rte (of_int (2 ^ 52)) \<le> rte (x / quantum x)" by (rule rte_mono)
  then have "2 ^ 52 \<le> rte (x / quantum x)" by (simp only: rte_of_int)
  then have "(of_int (2 ^ 52) :: rat) \<le> of_int (rte (x / quantum x))"
    by (simp only: of_int_le_iff)
  then have "(2 ^ 52 :: rat) \<le> of_int (rte (x / quantum x))" by simp
  then have "2 ^ 52 * quantum x \<le> of_int (rte (x / quantum x)) * quantum x"
    by (rule mult_right_mono) (rule less_imp_le [OF quantum_pos])
  moreover have "2 ^ 52 * quantum x = 2 powi exponent x"
    unfolding quantum_def e by (rule pow2_split52 [symmetric])
  ultimately show ?thesis using assms by (simp only: rnd_nonneg_eq [OF less_imp_le])
qed

lemma rnd_nonneg: "0 \<le> x \<Longrightarrow> 0 \<le> rnd x"
proof -
  assume x: "0 \<le> x"
  then have "0 \<le> x / quantum x" using quantum_pos [of x] by simp
  then have "rte 0 \<le> rte (x / quantum x)" by (rule rte_mono)
  then have "0 \<le> rte (x / quantum x)" by (simp add: rte_def)
  then show ?thesis using x quantum_pos [of x] by (simp add: rnd_nonneg_eq)
qed

lemma rnd_mono:
  assumes "0 \<le> x" and "x \<le> y"
  shows "rnd x \<le> rnd y"
proof (cases "x = 0")
  case True
  then show ?thesis using rnd_nonneg [of y] assms by (simp add: rnd_def)
next
  case False
  with assms have x: "0 < x" and y: "0 < y" by simp_all
  let ?ex = "max (exponent x) (- 1022)" and ?ey = "max (exponent y) (- 1022)"
  have exy: "exponent x \<le> exponent y"
  proof -
    have "2 powi exponent x \<le> x" using exponent_bounds [OF x] by simp
    also have "x \<le> y" by fact
    also have "y < 2 powi (exponent y + 1)" using exponent_bounds [OF y] by simp
    finally have "exponent x < exponent y + 1" by (simp only: pow2_less_iff)
    then show ?thesis by simp
  qed
  show ?thesis
  proof (cases "?ex = ?ey")
    case True
    then have q: "quantum x = quantum y" by (simp add: quantum_def)
    have "x / quantum y \<le> y / quantum y"
      using assms quantum_pos [of y] by (simp add: divide_right_mono)
    then have "rte (x / quantum y) \<le> rte (y / quantum y)" by (rule rte_mono)
    then have "(of_int (rte (x / quantum y)) :: rat) \<le> of_int (rte (y / quantum y))" by simp
    then have
      "of_int (rte (x / quantum y)) * quantum y \<le> of_int (rte (y / quantum y)) * quantum y"
      by (rule mult_right_mono) (rule less_imp_le [OF quantum_pos])
    then show ?thesis using x y by (simp add: rnd_nonneg_eq q)
  next
    case False
    with exy have lt: "?ex < ?ey" and ny: "- 1022 \<le> exponent y" by auto
    then have ey: "?ey = exponent y" by simp
    have "rnd x \<le> 2 powi (?ex + 1)" by (rule rnd_upper [OF x])
    also have "\<dots> \<le> 2 powi exponent y"
    proof -
      from lt ey have "?ex + 1 \<le> exponent y" by linarith
      then show ?thesis by (simp only: pow2_le_iff)
    qed
    also have "\<dots> \<le> rnd y" by (rule rnd_lower [OF y ny])
    finally show ?thesis .
  qed
qed

lemma rnd_pow2:
  assumes "- 1022 \<le> k"
  shows "rnd (2 powi k) = 2 powi k"
proof -
  have "(2::rat) powi k < 2 powi (k + 1)" by (simp add: pow2_less_iff)
  then have e: "exponent (2 powi k) = k" by (intro exponent_unique) simp_all
  have q: "quantum (2 powi k) = 2 powi (k - 52)" using assms by (simp add: quantum_def e)
  have "(2::rat) powi k / 2 powi (k - 52) = of_int (2 ^ 52)"
    by (subst pow2_split52 [of k]) simp
  then have "rte (2 powi k / 2 powi (k - 52)) = 2 ^ 52" by (simp only: rte_of_int)
  then have "rnd (2 powi k) = of_int (2 ^ 52) * 2 powi (k - 52)" by (simp add: rnd_nonneg_eq q)
  also have "\<dots> = 2 powi k" using pow2_split52 [of k] by simp
  finally show ?thesis .
qed


lemma rnd_1: "rnd 1 = 1"
  using rnd_pow2 [of 0] by simp


lemma to_number_finite:
  assumes "0 \<le> x" and "x \<le> 2 powi 64"
  shows "to_number x = Finite (rnd x)"
proof -
  have "rnd x \<le> rnd (2 powi 64)" using assms by (rule rnd_mono)
  also have "\<dots> = 2 powi 64" by (rule rnd_pow2) simp
  also have "\<dots> < 2 powi 1024" by (simp only: pow2_less_iff)
  finally have "rnd x < 2 powi 1024" .
  moreover have "0 \<le> rnd x" using assms(1) by (rule rnd_nonneg)
  ultimately have "\<not> 2 powi 1024 \<le> \<bar>rnd x\<bar>" by simp
  then show ?thesis by (simp only: to_number_def if_False)
qed

lemma unsigned_rat: "(unsigned (w :: 64 word) :: rat) = of_nat (unat w)"
  by (rule of_nat_unat [symmetric])

lemma uint64_nonneg: "0 \<le> (unsigned (w :: 64 word) :: rat)"
  by (simp only: unsigned_rat of_nat_0_le_iff)

lemma uint64_le_pow2: "(unsigned (w :: 64 word) :: rat) \<le> 2 powi 64"
proof -
  have "unat w < 2 ^ LENGTH(64)" by (rule unsigned_less)
  then have "(of_nat (unat w) :: rat) < of_nat (2 ^ LENGTH(64))" by (simp only: of_nat_less_iff)
  then have "(unsigned w :: rat) < of_nat (2 ^ LENGTH(64))" by (simp only: unsigned_rat)
  then show ?thesis by simp
qed

lemma of_uint64_finite: "of_uint64 w = Finite (rnd (unsigned w))"
  unfolding of_uint64_def by (rule to_number_finite) (rule uint64_nonneg, rule uint64_le_pow2)

lemma one_le_uint64:
  assumes "0 < (t :: 64 word)"
  shows "1 \<le> rnd (unsigned t)"
proof -
  from assms have "t \<noteq> 0" by auto
  then have "0 < unat t" by (simp add: unat_gt_0)
  then have "1 \<le> unat t" by simp
  then have "(of_nat 1 :: rat) \<le> of_nat (unat t)" by (simp only: of_nat_le_iff)
  then have "(1::rat) \<le> unsigned t" by (simp only: unsigned_rat of_nat_1)
  then have "rnd 1 \<le> rnd (unsigned t)" by (intro rnd_mono) simp_all
  then show ?thesis by (simp only: rnd_1)
qed

lemma uint64_mono:
  assumes "(l :: 64 word) \<le> t"
  shows "rnd (unsigned l) \<le> rnd (unsigned t)"
proof -
  from assms have "unat l \<le> unat t" by (simp only: word_le_nat_alt)
  then have "(of_nat (unat l) :: rat) \<le> of_nat (unat t)" by (simp only: of_nat_le_iff)
  then have "(unsigned l :: rat) \<le> unsigned t" by (simp only: unsigned_rat)
  then show ?thesis using uint64_nonneg [of l] by (intro rnd_mono)
qed

lemma ratio_range:
  assumes "0 < (t :: 64 word)" and "l \<le> t"
  shows "0 \<le> rnd (unsigned l) / rnd (unsigned t) \<and>
         rnd (unsigned l) / rnd (unsigned t) \<le> 1"
proof -
  have b: "1 \<le> rnd (unsigned t)" by (rule one_le_uint64 [OF assms(1)])
  have a: "0 \<le> rnd (unsigned l)" by (rule rnd_nonneg) (rule uint64_nonneg)
  have ab: "rnd (unsigned l) \<le> rnd (unsigned t)" by (rule uint64_mono [OF assms(2)])
  from a b ab show ?thesis by (simp add: divide_le_eq_1)
qed

lemma quotient_range:
  assumes "0 < (t :: 64 word)" and "l \<le> t"
  shows "0 \<le> rnd (rnd (unsigned l) / rnd (unsigned t)) \<and>
         rnd (rnd (unsigned l) / rnd (unsigned t)) \<le> 1"
proof -
  note r = ratio_range [OF assms]
  from r have "0 \<le> rnd (rnd (unsigned l) / rnd (unsigned t))"
    by (intro rnd_nonneg) simp
  moreover from r have "rnd (rnd (unsigned l) / rnd (unsigned t)) \<le> rnd 1"
    by (intro rnd_mono) simp_all
  ultimately show ?thesis by (simp only: rnd_1)
qed


lemma listener_percent:
  assumes "0 < total e" and "loaded e \<le> total e" and "lengthComputable e"
  shows "progress_listener True e = Some (Finite (of_int (percent (loaded e) (total e))))"
proof -
  let ?a = "rnd (unsigned (loaded e))" and ?b = "rnd (unsigned (total e))"
  have b: "?b \<noteq> 0" using one_le_uint64 [OF assms(1)] by simp
  note r = ratio_range [OF assms(1,2)]
  have d: "js_div (Finite ?a) (Finite ?b) = Finite (rnd (?a / ?b))"
  proof -
    have "(1::rat) \<le> 2 powi 64" by simp
    with r have "to_number (?a / ?b) = Finite (rnd (?a / ?b))"
      by (intro to_number_finite) simp_all
    with b show ?thesis by simp
  qed
  note q = quotient_range [OF assms(1,2)]
  have m: "js_mul (Finite (rnd (?a / ?b))) (Finite 100) = Finite (rnd (rnd (?a / ?b) * 100))"
  proof -
    have "(100::rat) \<le> 2 powi 64" by simp
    with q have "to_number (rnd (?a / ?b) * 100) = Finite (rnd (rnd (?a / ?b) * 100))"
      by (intro to_number_finite) simp_all
    then show ?thesis by simp
  qed
  have "progress_listener True e =
          Some (Math_round (js_mul (js_div (Finite ?a) (Finite ?b)) (Finite 100)))"
    using assms(3) by (simp only: progress_listener_def of_uint64_finite simp_thms if_True)
  also have "\<dots> = Some (Finite (of_int (percent (loaded e) (total e))))"
    by (simp only: d m Math_round.simps percent_def)
  finally show ?thesis .
qed



















text \<open>Doubles and percentages given by their values.\<close>

lemma rte_eqI:
  assumes "of_int n - 1 / 2 < x" and "x < of_int n + 1 / 2"
  shows "rte x = n"
proof -
  have "of_int (n - 1) \<le> x" using assms(1) by simp
  then have l: "n - 1 \<le> \<lfloor>x\<rfloor>" by (simp only: le_floor_iff)
  have "x < of_int (n + 1)" using assms(2) by simp
  then have u: "\<lfloor>x\<rfloor> < n + 1" by (simp only: floor_less_iff)
  from l u consider "\<lfloor>x\<rfloor> = n" | "\<lfloor>x\<rfloor> = n - 1" by linarith
  then show ?thesis
  proof cases
    case 1
    with assms show ?thesis by (simp add: rte_def)
  next
    case 2
    with assms show ?thesis by (simp add: rte_def)
  qed
qed

lemma rnd_eqI:
  assumes "2 powi e \<le> x" and "x < 2 powi (e + 1)" and "- 1022 \<le> e"
    and "of_int n - 1 / 2 < x / 2 powi (e - 52)" and "x / 2 powi (e - 52) < of_int n + 1 / 2"
  shows "rnd x = of_int n * 2 powi (e - 52)"
proof -
  have "(0::rat) < 2 powi e" by simp
  with assms(1) have pos: "0 \<le> x" by linarith
  have e: "exponent x = e" using assms(1,2) by (rule exponent_unique)
  have q: "quantum x = 2 powi (e - 52)" using assms(3) by (simp add: quantum_def e)
  have "rte (x / 2 powi (e - 52)) = n" using assms(4,5) by (rule rte_eqI)
  then show ?thesis by (simp add: rnd_nonneg_eq [OF pos] q)
qed

lemma rnd_3: "rnd 3 = 3"
  using rnd_eqI [of 1 3 "3 * 2 ^ 51"] by (simp add: power_int_minus)

lemma rnd_third: "rnd (1 / 3) = 6004799503160661 / 18014398509481984"
  using rnd_eqI [of "- 2" "1 / 3" 6004799503160661] by (simp add: power_int_minus)

lemma rnd_third_100:
  "rnd (150119987579016525 / 4503599627370496) = 2345624805922133 / 70368744177664"
  using rnd_eqI [of 5 "150119987579016525 / 4503599627370496" 4691249611844266]
  by (simp add: power_int_minus)

lemma percent_1_3: "percent 1 3 = 33"
  by (simp add: percent_def rnd_1 rnd_3 rnd_third rnd_third_100 floor_eq_iff)




lemma rnd_29: "rnd 29 = 29"
  using rnd_eqI [of 4 29 "29 * 2 ^ 48"] by (simp add: power_int_minus)

lemma rnd_200: "rnd 200 = 200"
  using rnd_eqI [of 7 200 "200 * 2 ^ 45"] by (simp add: power_int_minus)

lemma rnd_29_200: "rnd (29 / 200) = 5224175567749775 / 36028797018963968"
  using rnd_eqI [of "- 3" "29 / 200" 5224175567749775] by (simp add: power_int_minus)

lemma rnd_29_200_100:
  "rnd (130604389193744375 / 9007199254740992) = 8162774324609023 / 562949953421312"
  using rnd_eqI [of 3 "130604389193744375 / 9007199254740992" 8162774324609023]
  by (simp add: power_int_minus)

lemma percent_29_200: "percent 29 200 = 14"
  by (simp add: percent_def rnd_29 rnd_200 rnd_29_200 rnd_29_200_100 floor_eq_iff)

section \<open>Upload progress\<close>




text \<open>
  One third of an upload is reported as 33 per cent. For 29 bytes of 200 the exact
  percentage is 14.5, the product computed in doubles is just below it, and 14 is
  reported.
\<close>

lemma progress_one_third:
  "progress_listener True \<lparr>lengthComputable = True, loaded = 1, total = 3\<rparr> = Some (Finite 33)"
  using listener_percent [of "\<lparr>lengthComputable = True, loaded = 1, total = 3\<rparr>"]
  by (simp add: percent_1_3)

lemma progress_tie:
  "progress_listener True \<lparr>lengthComputable = True, loaded = 29, total = 200\<rparr>
     = Some (Finite 14)"
  using listener_percent [of "\<lparr>lengthComputable = True, loaded = 29, total = 200\<rparr>"]
  by (simp add: percent_29_200)

section \<open>Deleting a session\<close>

text \<open>
  C6, as stated: a second delete of a session that has been deleted is not shown as an
  error, the client tolerating a 404. With two confirmed deletes of \<open>s1\<close> in flight, the
  first answered 200 and the second 404, the list ends without the session and the error
  banner is shown; \<^verbatim>\<open>deleteSession\<close> of the API client throws on the 404 as well.
\<close>

theorem repeat_delete_404_counterexample:
  "handleDelete_settle (lit ''s1'') False
     (Responded \<lparr>status = 404, body = Json (DetailStr (lit ''Session not found'')) ()\<rparr>)
     (handleDelete_settle (lit ''s1'') False
        (Responded \<lparr>status = 200, body = Json Absent ()\<rparr>) example_history)
   = \<lparr>sessions = [], h_loading = False, h_error = Some (lit ''Failed to delete session''),
      deleteConfirm = None\<rparr> \<and>
   deleteSession_response
     \<lparr>status = 404, body = Json (DetailStr (lit ''Session not found'')) ()\<rparr>
   = Inl (ErrorObj (lit ''Failed to delete session: 404''))"
  by (simp add: handleDelete_settle_def example_history_def example_session_def ok_def
      deleteSession_response_def lit_def dec.simps)

text \<open>
  C6, amended. After a first successful delete, a second delete of the same session leaves
  the displayed list in the same end state, without the session, however the second
  request ends. The second delete leaves the error display as it was when its response is
  2xx and the \<^verbatim>\<open>onDeleteSession\<close> callback, if the component has one, does not throw;
  otherwise (a response that is not 2xx, a 404 say, a failed request, or a throwing
  callback) it shows the error \<^verbatim>\<open>Failed to delete session\<close>. \<^verbatim>\<open>deleteSession\<close> of the
  API client returns on a 2xx response and throws \<^verbatim>\<open>Failed to delete session: \<close>
  followed by the status on any other.
\<close>

theorem repeat_delete_end_state:
  "(ok r1 \<longrightarrow>
      sessions (handleDelete_settle sessionId c2 reply2
         (handleDelete_settle sessionId c1 (Responded r1) s))
        = sessions (handleDelete_settle sessionId c1 (Responded r1) s) \<and>
      sessionId \<notin> cs_session_id ` set (sessions (handleDelete_settle sessionId c2 reply2
         (handleDelete_settle sessionId c1 (Responded r1) s))) \<and>
      h_error (handleDelete_settle sessionId c2 reply2
         (handleDelete_settle sessionId c1 (Responded r1) s))
        = (if (\<exists>r2. reply2 = Responded r2 \<and> ok r2) \<and> \<not> c2
           then h_error (handleDelete_settle sessionId c1 (Responded r1) s)
           else Some (lit ''Failed to delete session''))) \<and>
   deleteSession_response r
     = (if ok r then Inr ()
        else Inl (ErrorObj (lit ''Failed to delete session: '' @ dec (status r))))"
  by (auto simp: handleDelete_settle_def deleteSession_response_def split: fetched.splits)

theorem repeat_delete_end_state_witness:
  "ok \<lparr>status = 204, body = (NotJson :: unit body)\<rparr> \<and>
   sessions
     (handleDelete_settle (lit ''s1'') False
        (Responded \<lparr>status = 200, body = (NotJson :: unit body)\<rparr>)
        (handleDelete_settle (lit ''s1'') False
           (Responded \<lparr>status = 204, body = (NotJson :: unit body)\<rparr>) example_history)) = [] \<and>
   h_error
     (handleDelete_settle (lit ''s1'') False
        (Responded \<lparr>status = 200, body = (NotJson :: unit body)\<rparr>)
        (handleDelete_settle (lit ''s1'') False
           (Responded \<lparr>status = 204, body = (NotJson :: unit body)\<rparr>) example_history)) = None \<and>
   h_error
     (handleDelete_settle (lit ''s1'') False
        (Responded \<lparr>status = 404, body = (NotJson :: unit body)\<rparr>)
        (handleDelete_settle (lit ''s1'') False
           (Responded \<lparr>status = 204, body = (NotJson :: unit body)\<rparr>) example_history))
     = Some (lit ''Failed to delete session'') \<and>
   deleteSession_response \<lparr>status = 404, body = (NotJson :: unit body)\<rparr>
     = Inl (ErrorObj (lit ''Failed to delete session: 404'')) \<and>
   deleteSession_response \<lparr>status = 204, body = (NotJson :: unit body)\<rparr> = Inr ()"
  using repeat_delete_end_state
    [of "\<lparr>status = 204, body = (NotJson :: unit body)\<rparr>" "lit ''s1''" False
      "Responded \<lparr>status = 200, body = (NotJson :: unit body)\<rparr>" False example_history
      "\<lparr>status = 404, body = (NotJson :: unit body)\<rparr>"]
    repeat_delete_end_state
    [of "\<lparr>status = 204, body = (NotJson :: unit body)\<rparr>" "lit ''s1''" False
      "Responded \<lparr>status = 404, body = (NotJson :: unit body)\<rparr>" False example_history
      "\<lparr>status = 204, body = (NotJson :: unit body)\<rparr>"]
  by (simp add: ok_def handleDelete_settle_def example_history_def example_session_def
      lit_def dec.simps)

section \<open>Switching the provider\<close>

text \<open>
  C5. When the request to switch throws, or its reply has no status \<^verbatim>\<open>'success'\<close>, the
  active provider and the active model stay as they were; on success both are set
  together. A click on a provider other than \<^verbatim>\<open>local_ollama\<close> that has no API key opens
  the key prompt of that provider and sends no request.
\<close>

theorem failed_switch_keeps_active_pair:
  "(reply = SwitchThrows \<or> (\<exists>st m. reply = SwitchData st m \<and> st \<noteq> Some (lit ''success'')) \<longrightarrow>
      activeProvider (fst (switchProvider providerId model reply preply s)) = activeProvider s \<and>
      activeModel (fst (switchProvider providerId model reply preply s)) = activeModel s) \<and>
   (\<forall>m. reply = SwitchData (Some (lit ''success'')) m \<longrightarrow>
      activeProvider (fst (switchProvider providerId model reply preply s)) = providerId \<and>
      activeModel (fst (switchProvider providerId model reply preply s)) = m) \<and>
   (provider_id provider \<noteq> lit ''local_ollama'' \<and> \<not> has_api_key provider \<longrightarrow>
      provider_click provider reply preply s
        = (s\<lparr>showKeyInput := Some (provider_id provider)\<rparr>, []))"
  by (auto simp: switchProvider_def provider_click_def needsKey_def fetchProviders_def Let_def
      split: switch_reply.splits providers_reply.splits)

theorem failed_switch_keeps_active_pair_witness:
  "fst (switchProvider (lit ''openai'') None
          (SwitchData (Some (lit ''error'')) (lit ''gpt-4o-mini'')) ProvidersThrows
          (initial_settings_state :: settings_state))
     = initial_settings_state \<and>
   provider_id example_openai \<noteq> lit ''local_ollama'' \<and> \<not> has_api_key example_openai \<and>
   provider_click example_openai SwitchThrows ProvidersThrows initial_settings_state
     = (initial_settings_state\<lparr>showKeyInput := Some (lit ''openai'')\<rparr>, [])"
  using failed_switch_keeps_active_pair
    [of "SwitchData (Some (lit ''error'')) (lit ''gpt-4o-mini'')" "lit ''openai''" None
      ProvidersThrows "initial_settings_state :: settings_state" example_openai]
    failed_switch_keeps_active_pair
    [of SwitchThrows "lit ''openai''" None ProvidersThrows
      "initial_settings_state :: settings_state" example_openai]
  by (simp add: switchProvider_def initial_settings_state_def example_openai_def lit_def
      Let_def)

end
